theory Spec2Isabelle
  imports Complex_Main "HOL-Library.AList" "HOL-Library.Word"
begin

section \<open>Audio accumulator (streaming\_transcription.py, class AudioBuffer)\<close>

text \<open>
  Audio payloads are Python \<^verbatim>\<open>bytes\<close> objects: lists of 8-bit words. The buffer is a
  Python list of chunks; \<^verbatim>\<open>b''.join\<close> is list concatenation. The lock only
  serialises the three methods, each of which is one state transformer here.
\<close>

type_synonym byte = "8 word"
type_synonym bytes = "byte list"

record audio_buffer =
  sample_rate :: int
  chunk_size :: int
  buffer :: "bytes list"
  total_samples :: int
  last_transcription_end :: int

definition AudioBuffer_init :: "int \<Rightarrow> int \<Rightarrow> audio_buffer" where
  "AudioBuffer_init rate csize =
     \<lparr>sample_rate = rate, chunk_size = csize, buffer = [],
      total_samples = 0, last_transcription_end = 0\<rparr>"

definition AudioBuffer_default :: audio_buffer where
  "AudioBuffer_default = AudioBuffer_init 16000 4096"

definition add_chunk :: "audio_buffer \<Rightarrow> bytes \<Rightarrow> audio_buffer" where
  "add_chunk ab audio_chunk =
     ab\<lparr>buffer := buffer ab @ [audio_chunk],
        total_samples := total_samples ab + int (length audio_chunk) div 2\<rparr>"

text \<open>\<^verbatim>\<open>get_new_audio\<close> returns its result together with the mutated buffer;
  \<open>None\<close> is Python's \<^verbatim>\<open>None\<close>.\<close>

definition get_new_audio :: "audio_buffer \<Rightarrow> bytes option \<times> audio_buffer" where
  "get_new_audio ab =
     (if buffer ab = [] then (None, ab)
      else (Some (concat (buffer ab)), ab\<lparr>buffer := []\<rparr>))"

definition clear_buffer :: "audio_buffer \<Rightarrow> audio_buffer" where
  "clear_buffer ab = ab\<lparr>buffer := [], total_samples := 0, last_transcription_end := 0\<rparr>"

text \<open>Interleavings of the two client-visible operations, run from left to right; the
  results of the \<^verbatim>\<open>get_new_audio\<close> calls are collected in call order.\<close>

datatype audio_op = AddChunk bytes | TakeAll

fun audio_run :: "audio_buffer \<Rightarrow> audio_op list \<Rightarrow> audio_buffer \<times> bytes option list" where
  "audio_run ab [] = (ab, [])"
| "audio_run ab (AddChunk c # ops) = audio_run (add_chunk ab c) ops"
| "audio_run ab (TakeAll # ops) =
     (case get_new_audio ab of
        (r, ab') \<Rightarrow> (case audio_run ab' ops of (ab'', rs) \<Rightarrow> (ab'', r # rs)))"

fun bytes_added :: "audio_op list \<Rightarrow> bytes" where
  "bytes_added [] = []"
| "bytes_added (AddChunk c # ops) = c @ bytes_added ops"
| "bytes_added (TakeAll # ops) = bytes_added ops"

fun bytes_returned :: "bytes option list \<Rightarrow> bytes" where
  "bytes_returned [] = []"
| "bytes_returned (None # rs) = bytes_returned rs"
| "bytes_returned (Some b # rs) = b @ bytes_returned rs"


section \<open>Per-client message queue (message\_queue.py, class MessageQueue)\<close>

datatype py_error = ValueError | KeyError | RuntimeError

text \<open>A processor registered on a queue is a closure. The only closure the server ever
  registers is \<^verbatim>\<open>process_audio\<close> of \<^verbatim>\<open>websocket_endpoint\<close>, which captures the
  connection it was created for; connections are identified by a number (the object
  identity of the WebSocket).\<close>

type_synonym websocket = nat

datatype processor = ProcessAudio websocket

text \<open>\<^verbatim>\<open>collections.deque(maxlen=n).append(x)\<close>: the item is appended on the right and,
  when the deque is then longer than \<open>n\<close>, one item is discarded from the left.\<close>

definition deque_append :: "nat \<Rightarrow> 'm list \<Rightarrow> 'm \<Rightarrow> 'm list" where
  "deque_append n q x = (let q' = q @ [x] in if length q' > n then tl q' else q')"

record 'm message_queue =
  queue :: "'m list"
  maxlen :: nat
  processing :: bool
  task :: bool
  processors :: "processor list"

text \<open>\<^verbatim>\<open>deque(maxlen=max_size)\<close> raises \<^verbatim>\<open>ValueError\<close> for a negative bound.\<close>

definition MessageQueue_init :: "int \<Rightarrow> py_error + 'm message_queue" where
  "MessageQueue_init max_size =
     (if max_size < 0 then Inl ValueError
      else Inr \<lparr>queue = [], maxlen = nat max_size, processing = False, task = False,
                processors = []\<rparr>)"

definition MessageQueue_default :: "'m message_queue" where
  "MessageQueue_default =
     \<lparr>queue = [], maxlen = 100, processing = False, task = False, processors = []\<rparr>"

definition add_processor :: "'m message_queue \<Rightarrow> processor \<Rightarrow> 'm message_queue" where
  "add_processor q p = q\<lparr>processors := processors q @ [p]\<rparr>"

definition queue_size :: "'m message_queue \<Rightarrow> nat" where
  "queue_size q = length (queue q)"

text \<open>\<^verbatim>\<open>add_message\<close>: append under the deque's bound, then create the draining task when
  none exists and none is processing.\<close>

definition add_message :: "'m message_queue \<Rightarrow> 'm \<Rightarrow> 'm message_queue" where
  "add_message q message =
     (let q1 = q\<lparr>queue := deque_append (maxlen q) (queue q) message\<rparr>
      in if \<not> processing q1 \<and> \<not> task q1 then q1\<lparr>task := True\<rparr> else q1)"

definition add_messages :: "'m message_queue \<Rightarrow> 'm list \<Rightarrow> 'm message_queue" where
  "add_messages q ms = foldl add_message q ms"


section \<open>Sessions (session\_manager.py, classes Session and SessionManager)\<close>

text \<open>
  Timestamps (\<^verbatim>\<open>datetime.now()\<close>) are integers, in microseconds; every operation that
  reads the clock takes the reading as an argument. A participant's info dictionary has
  four string entries. The \<^verbatim>\<open>participants\<close> dictionary is an association list in
  insertion order: \<^verbatim>\<open>d[k] = v\<close> is \<^const>\<open>AList.update\<close> (overwrite in place, or append),
  \<^verbatim>\<open>del d[k]\<close> is \<^const>\<open>AList.delete\<close>, \<^verbatim>\<open>len(d)\<close> is the length.
\<close>

type_synonym datetime = int

record user_info =
  username :: string
  role :: string
  source_language :: string
  target_language :: string

record session =
  session_id :: string
  name :: string
  created_at :: datetime
  max_participants :: int
  participants :: "(websocket \<times> user_info) list"
  last_activity :: datetime

definition Session_init :: "string \<Rightarrow> string \<Rightarrow> int \<Rightarrow> datetime \<Rightarrow> session" where
  "Session_init sid nm maxp now =
     \<lparr>session_id = sid,
      name = (if nm \<noteq> [] then nm else ''Session '' @ take 8 sid),
      created_at = now, max_participants = maxp, participants = [], last_activity = now\<rparr>"

definition add_participant ::
  "session \<Rightarrow> websocket \<Rightarrow> user_info \<Rightarrow> datetime \<Rightarrow> bool \<times> session" where
  "add_participant s ws info now =
     (if int (length (participants s)) \<ge> max_participants s then (False, s)
      else (True, s\<lparr>participants := AList.update ws info (participants s),
                    last_activity := now\<rparr>))"

definition remove_participant :: "session \<Rightarrow> websocket \<Rightarrow> datetime \<Rightarrow> bool \<times> session" where
  "remove_participant s ws now =
     (if ws \<in> fst ` set (participants s)
      then (True, s\<lparr>participants := AList.delete ws (participants s), last_activity := now\<rparr>)
      else (False, s))"

definition get_participant_count :: "session \<Rightarrow> int" where
  "get_participant_count s = int (length (participants s))"

definition is_full :: "session \<Rightarrow> bool" where
  "is_full s = (int (length (participants s)) \<ge> max_participants s)"

definition is_empty :: "session \<Rightarrow> bool" where
  "is_empty s = (length (participants s) = 0)"

definition get_other_participants :: "session \<Rightarrow> websocket \<Rightarrow> websocket list" where
  "get_other_participants s ws = filter (\<lambda>w. w \<noteq> ws) (map fst (participants s))"

record session_manager =
  sessions :: "string \<rightharpoonup> session"
  client_sessions :: "websocket \<rightharpoonup> string"

definition SessionManager_init :: session_manager where
  "SessionManager_init = \<lparr>sessions = Map.empty, client_sessions = Map.empty\<rparr>"

text \<open>\<^verbatim>\<open>create_session\<close>: the argument \<open>sid\<close> is the value of \<^verbatim>\<open>str(uuid.uuid4())\<close>.\<close>

definition create_session ::
  "session_manager \<Rightarrow> string \<Rightarrow> string \<Rightarrow> int \<Rightarrow> datetime \<Rightarrow> session \<times> session_manager" where
  "create_session m sid nm maxp now =
     (let s = Session_init sid nm maxp now
      in (s, m\<lparr>sessions := (sessions m)(sid \<mapsto> s)\<rparr>))"

definition get_session :: "session_manager \<Rightarrow> string \<Rightarrow> session option" where
  "get_session m sid = sessions m sid"

text \<open>\<^verbatim>\<open>if session_id:\<close> is false for \<^verbatim>\<open>None\<close> and for the empty string.\<close>

definition get_client_session :: "session_manager \<Rightarrow> websocket \<Rightarrow> session option" where
  "get_client_session m ws =
     (case client_sessions m ws of
        None \<Rightarrow> None
      | Some sid \<Rightarrow> if sid \<noteq> [] then get_session m sid else None)"

text \<open>The Session object found by \<^verbatim>\<open>get_session\<close> is mutated in place, so the
  changed session is stored back under the key it was found at.\<close>

definition join_session ::
  "session_manager \<Rightarrow> string \<Rightarrow> websocket \<Rightarrow> user_info \<Rightarrow> datetime \<Rightarrow> bool \<times> session_manager" where
  "join_session m sid ws info now =
     (case get_session m sid of
        None \<Rightarrow> (False, m)
      | Some s \<Rightarrow>
          if is_full s then (False, m)
          else (case add_participant s ws info now of
                  (True, s') \<Rightarrow>
                    (True, m\<lparr>sessions := (sessions m)(sid \<mapsto> s'),
                             client_sessions := (client_sessions m)(ws \<mapsto> sid)\<rparr>)
                | (False, s') \<Rightarrow> (False, m)))"

text \<open>\<^verbatim>\<open>leave_session\<close>: the Session object that \<^verbatim>\<open>get_client_session\<close> found under the
  client's entry of \<^verbatim>\<open>client_sessions\<close> is mutated in place, so the changed session is
  stored back under that entry's key. \<^verbatim>\<open>del self.sessions[session_id]\<close> uses the id stored
  in the Session object and raises \<^verbatim>\<open>KeyError\<close> when the dictionary has no such key.\<close>

definition store_back ::
  "(string \<rightharpoonup> session) \<Rightarrow> string option \<Rightarrow> session \<Rightarrow> (string \<rightharpoonup> session)" where
  "store_back ss key s = (case key of None \<Rightarrow> ss | Some k \<Rightarrow> ss(k \<mapsto> s))"

definition leave_session ::
  "session_manager \<Rightarrow> websocket \<Rightarrow> datetime \<Rightarrow> py_error + (bool \<times> session_manager)" where
  "leave_session m ws now =
     (case get_client_session m ws of
        None \<Rightarrow> Inr (False, m)
      | Some s \<Rightarrow>
          (case remove_participant s ws now of
             (True, s') \<Rightarrow>
               (let m1 = m\<lparr>sessions := store_back (sessions m) (client_sessions m ws) s',
                           client_sessions := (client_sessions m)(ws := None)\<rparr>
                in if is_empty s'
                   then (if session_id s \<in> dom (sessions m1)
                         then Inr (True, m1\<lparr>sessions := (sessions m1)(session_id s := None)\<rparr>)
                         else Inl KeyError)
                   else Inr (True, m1))
           | (False, s') \<Rightarrow> Inr (False, m)))"

definition get_session_participants :: "session_manager \<Rightarrow> string \<Rightarrow> websocket list" where
  "get_session_participants m sid =
     (case get_session m sid of None \<Rightarrow> [] | Some s \<Rightarrow> map fst (participants s))"

definition get_other_session_participants :: "session_manager \<Rightarrow> websocket \<Rightarrow> websocket list" where
  "get_other_session_participants m ws =
     (case get_client_session m ws of None \<Rightarrow> [] | Some s \<Rightarrow> get_other_participants s ws)"

text \<open>One pass of \<^verbatim>\<open>_cleanup_inactive_sessions\<close> after its sleep: every session whose
  last activity is more than 30 minutes before \<open>now\<close> is deleted from \<^verbatim>\<open>sessions\<close>.
  Nothing else is touched.\<close>

definition inactive_threshold :: "datetime \<Rightarrow> datetime" where
  "inactive_threshold now = now - 30 * 60 * 1000000"

definition cleanup_inactive_sessions :: "session_manager \<Rightarrow> datetime \<Rightarrow> session_manager" where
  "cleanup_inactive_sessions m now =
     m\<lparr>sessions := (\<lambda>sid. case sessions m sid of
                              None \<Rightarrow> None
                            | Some s \<Rightarrow> if last_activity s < inactive_threshold now
                                        then None else Some s)\<rparr>"

text \<open>Sequences of manager operations. Each operation carries the clock reading it is
  run at; \<open>CreateSession\<close> also carries the identifier that \<^verbatim>\<open>uuid4\<close> returns.\<close>

datatype session_op =
    CreateSession string string int datetime
  | JoinSession string websocket user_info datetime
  | LeaveSession websocket datetime
  | Sweep datetime

fun apply_op :: "session_manager \<Rightarrow> session_op \<Rightarrow> py_error + session_manager" where
  "apply_op m (CreateSession sid nm maxp now) = Inr (snd (create_session m sid nm maxp now))"
| "apply_op m (JoinSession sid ws info now) = Inr (snd (join_session m sid ws info now))"
| "apply_op m (LeaveSession ws now) =
     (case leave_session m ws now of Inl e \<Rightarrow> Inl e | Inr (b, m') \<Rightarrow> Inr m')"
| "apply_op m (Sweep now) = Inr (cleanup_inactive_sessions m now)"

fun run_ops :: "session_manager \<Rightarrow> session_op list \<Rightarrow> py_error + session_manager" where
  "run_ops m [] = Inr m"
| "run_ops m (x # xs) = (case apply_op m x of Inl e \<Rightarrow> Inl e | Inr m' \<Rightarrow> run_ops m' xs)"








definition keyed_by_id :: "session_manager \<Rightarrow> bool" where
  "keyed_by_id m = (\<forall>sid s. sessions m sid = Some s \<longrightarrow> session_id s = sid)"

definition within_capacity :: "session_manager \<Rightarrow> bool" where
  "within_capacity m =
     (\<forall>sid s. sessions m sid = Some s \<longrightarrow>
        int (length (participants s)) \<le> max 0 (max_participants s))"

definition index_sound :: "session_manager \<Rightarrow> bool" where
  "index_sound m =
     (\<forall>ws sid s. client_sessions m ws = Some sid \<longrightarrow> sessions m sid = Some s \<longrightarrow>
        ws \<in> fst ` set (participants s))"

definition index_live :: "session_manager \<Rightarrow> bool" where
  "index_live m = (\<forall>ws sid. client_sessions m ws = Some sid \<longrightarrow> sid \<in> dom (sessions m))"

definition ids_within :: "string set \<Rightarrow> session_manager \<Rightarrow> bool" where
  "ids_within U m = (dom (sessions m) \<subseteq> U \<and> ran (client_sessions m) \<subseteq> U)"

text \<open>Concrete scenarios.\<close>

definition example_info :: user_info where
  "example_info = \<lparr>username = ''User-1'', role = ''speaker'', source_language = ''en'',
                     target_language = ''es''\<rparr>"






definition negative_capacity_manager :: session_manager where
  "negative_capacity_manager = snd (create_session SessionManager_init ''s1'' ''room'' (- 1) 0)"

definition one_slot_manager :: session_manager where
  "one_slot_manager =
     snd (join_session (snd (create_session SessionManager_init ''s1'' ''room'' 2 0))
            ''s1'' 1 example_info 1)"


section \<open>Streaming transcription controller (streaming\_transcription.py, class StreamingTranscriber)\<close>

text \<open>
  A result is the pair \<^verbatim>\<open>(text, confidence)\<close>. The recognition engine is outside the
  program: \<open>recognize audio lang\<close> stands for the outcome of the \<^verbatim>\<open>try\<close> block of
  \<^verbatim>\<open>_transcribe_audio_chunk\<close> (write the WAV file, \<^verbatim>\<open>model.transcribe\<close>, strip the
  text) on that audio and language: \<open>Inr text\<close> when it returns, \<open>Inl msg\<close> when any of
  it raises an \<^verbatim>\<open>Exception\<close> with message \<open>msg\<close>. Calls of the recognizer, of
  \<^verbatim>\<open>logger.error\<close> and of the callback are recorded as events, in order.
\<close>

type_synonym transcription = "string \<times> real"

type_synonym recognizer = "bytes \<Rightarrow> string \<Rightarrow> string + string"

datatype event = Recognized bytes string | Logged string | CalledBack string real

text \<open>The field \<open>language\<close> is \<^verbatim>\<open>source_language\<close>; \<open>processing_thread\<close> is true when
  the attribute holds a thread object. A callback returns \<open>Some msg\<close> when it raises.\<close>

record transcriber =
  audio_buffer :: audio_buffer
  callback :: "(string \<Rightarrow> real \<Rightarrow> string option) option"
  processing_thread :: bool
  running :: bool
  transcription_queue :: "transcription list"
  language :: string

definition StreamingTranscriber_init ::
  "(string \<Rightarrow> real \<Rightarrow> string option) option \<Rightarrow> transcriber" where
  "StreamingTranscriber_init cb =
     \<lparr>audio_buffer = AudioBuffer_default, callback = cb, processing_thread = False,
      running = False, transcription_queue = [], language = ''en''\<rparr>"

text \<open>\<^verbatim>\<open>start\<close>: the argument is the value of \<^verbatim>\<open>processing_thread.is_alive()\<close>.\<close>

definition start :: "bool \<Rightarrow> transcriber \<Rightarrow> transcriber" where
  "start is_alive t =
     (if processing_thread t \<and> is_alive then t
      else t\<lparr>running := True, processing_thread := True\<rparr>)"

text \<open>\<^verbatim>\<open>stop\<close>: \<^verbatim>\<open>join(timeout=2.0)\<close> only waits; it changes no attribute.\<close>

definition stop :: "transcriber \<Rightarrow> transcriber" where
  "stop t =
     (let t1 = t\<lparr>running := False\<rparr>;
          t2 = (if processing_thread t1 then t1\<lparr>processing_thread := False\<rparr> else t1)
      in t2\<lparr>audio_buffer := clear_buffer (audio_buffer t2)\<rparr>)"

definition add_audio_chunk :: "transcriber \<Rightarrow> bytes \<Rightarrow> transcriber" where
  "add_audio_chunk t chunk = t\<lparr>audio_buffer := add_chunk (audio_buffer t) chunk\<rparr>"

definition set_language :: "transcriber \<Rightarrow> string \<Rightarrow> transcriber" where
  "set_language t language_code = t\<lparr>language := language_code\<rparr>"

text \<open>\<^verbatim>\<open>_transcribe_audio_chunk\<close>: an exception of the engine is caught and logged, and the
  result is \<^verbatim>\<open>("", 0.0)\<close>.\<close>

definition transcribe_audio_chunk ::
  "recognizer \<Rightarrow> transcriber \<Rightarrow> bytes \<Rightarrow> transcription \<times> event list" where
  "transcribe_audio_chunk recognize t audio_data =
     (case recognize audio_data (language t) of
        Inr text \<Rightarrow> ((text, 1), [Recognized audio_data (language t)])
      | Inl e \<Rightarrow> (('''', 0), [Recognized audio_data (language t),
                                Logged (''Transcription error: '' @ e)]))"

text \<open>\<^verbatim>\<open>if result:\<close> tests a tuple of two elements, which is true in Python whatever
  the elements are.\<close>

definition truthy :: "transcription \<Rightarrow> bool" where
  "truthy result = True"

text \<open>One pass of the body of \<^verbatim>\<open>while self.running\<close> in \<^verbatim>\<open>_process_audio\<close>, after its
  sleep of 0.5 seconds.\<close>

definition process_audio_iteration ::
  "recognizer \<Rightarrow> transcriber \<Rightarrow> transcriber \<times> event list" where
  "process_audio_iteration recognize t =
     (case get_new_audio (audio_buffer t) of
        (audio_data, ab) \<Rightarrow>
          (let t1 = t\<lparr>audio_buffer := ab\<rparr>
           in case audio_data of
                None \<Rightarrow> (t1, [])
              | Some d \<Rightarrow>
                  if length d < 8000 then (t1, [])
                  else (case transcribe_audio_chunk recognize t1 d of
                          (result, ev) \<Rightarrow>
                            if truthy result
                            then (let t2 = t1\<lparr>transcription_queue :=
                                                 transcription_queue t1 @ [result]\<rparr>
                                  in case callback t2 of
                                       None \<Rightarrow> (t2, ev)
                                     | Some cb \<Rightarrow>
                                         if fst result \<noteq> []
                                         then (case cb (fst result) (snd result) of
                                                 None \<Rightarrow>
                                                   (t2, ev @ [CalledBack (fst result) (snd result)])
                                               | Some e \<Rightarrow>
                                                   (t2, ev @ [CalledBack (fst result) (snd result),
                                                      Logged (''Error in transcription thread: '' @ e)]))
                                         else (t2, ev))
                            else (t1, ev))))"

text \<open>The loop of \<^verbatim>\<open>_process_audio\<close>. It never ends by itself, so it is run against a
  finite schedule: one entry per tick, listing the chunks that \<^verbatim>\<open>add_audio_chunk\<close>
  delivers during that tick's sleep. The result says whether the loop has left the
  \<^verbatim>\<open>while\<close> or would go on.\<close>

datatype loop_state = Exited transcriber | StillRunning transcriber

fun transcriber_process_audio :: "recognizer \<Rightarrow> bytes list list \<Rightarrow> transcriber \<Rightarrow> loop_state \<times> event list" where
  "transcriber_process_audio recognize [] t = (if running t then StillRunning t else Exited t, [])"
| "transcriber_process_audio recognize (arrived # ticks) t =
     (if running t
      then (case process_audio_iteration recognize (foldl add_audio_chunk t arrived) of
              (t1, ev) \<Rightarrow>
                (case transcriber_process_audio recognize ticks t1 of (st, evs) \<Rightarrow> (st, ev @ evs)))
      else (Exited t, []))"

fun is_recognition :: "event \<Rightarrow> bool" where
  "is_recognition (Recognized d l) = True"
| "is_recognition e = False"

definition recognition_calls :: "event list \<Rightarrow> event list" where
  "recognition_calls ev = filter is_recognition ev"

text \<open>One resumption of the generator \<^verbatim>\<open>get_transcriptions\<close>, up to its next
  \<^verbatim>\<open>yield\<close>, its next sleep, or its end.\<close>

datatype gen_step = Yield transcription | Sleep | StopAsyncIteration

definition get_transcriptions_step :: "transcriber \<Rightarrow> gen_step \<times> transcriber" where
  "get_transcriptions_step t =
     (if running t
      then (case transcription_queue t of
              [] \<Rightarrow> (Sleep, t)
            | x # q \<Rightarrow> (Yield x, t\<lparr>transcription_queue := q\<rparr>))
      else (StopAsyncIteration, t))"

text \<open>A consumer that resumes the generator up to \<open>n\<close> times: the items it receives, and
  whether the generator has ended.\<close>

fun get_transcriptions :: "nat \<Rightarrow> transcriber \<Rightarrow> transcription list \<times> bool" where
  "get_transcriptions 0 t = ([], False)"
| "get_transcriptions (Suc n) t =
     (case get_transcriptions_step t of
        (StopAsyncIteration, t') \<Rightarrow> ([], True)
      | (Sleep, t') \<Rightarrow> get_transcriptions n t'
      | (Yield x, t') \<Rightarrow> (case get_transcriptions n t' of (xs, ended) \<Rightarrow> (x # xs, ended)))"

text \<open>Concrete scenarios.\<close>

definition chunk_2000 :: bytes where
  "chunk_2000 = replicate 2000 0"

definition example_recognizer :: recognizer where
  "example_recognizer audio lang = Inr ''hello''"

definition failing_recognizer :: recognizer where
  "failing_recognizer audio lang = Inl ''engine failure''"

definition five_chunk_transcriber :: transcriber where
  "five_chunk_transcriber =
     foldl add_audio_chunk (start False (StreamingTranscriber_init None))
       [chunk_2000, chunk_2000, chunk_2000, chunk_2000, chunk_2000]"

definition three_chunk_transcriber :: transcriber where
  "three_chunk_transcriber =
     foldl add_audio_chunk (start False (StreamingTranscriber_init None))
       [chunk_2000, chunk_2000, chunk_2000]"

section \<open>Connection handling (main.py, websocket\_endpoint; message\_queue.py, ClientMessageManager)\<close>

text \<open>
  The configuration dictionary of a connection always has the same six keys. Frames
  sent back to clients are not part of the state.
\<close>

record client_config =
  cfg_source_language :: string
  cfg_target_language :: string
  cfg_role :: string
  cfg_client_id :: string
  cfg_session_id :: "string option"
  cfg_username :: string

record config_message =
  msg_source_language :: "string option"
  msg_target_language :: "string option"
  msg_role :: "string option"
  msg_username :: "string option"

text \<open>\<^verbatim>\<open>ClientMessageManager\<close>: a dictionary from client id to queue.\<close>

type_synonym queues = "string \<rightharpoonup> bytes message_queue"

definition get_queue :: "queues \<Rightarrow> string \<Rightarrow> bytes message_queue \<times> queues" where
  "get_queue qs client_id =
     (case qs client_id of
        None \<Rightarrow> (MessageQueue_default, qs(client_id \<mapsto> MessageQueue_default))
      | Some q \<Rightarrow> (q, qs))"

definition manager_add_message :: "queues \<Rightarrow> string \<Rightarrow> bytes \<Rightarrow> queues" where
  "manager_add_message qs client_id message =
     (case get_queue qs client_id of
        (q, qs') \<Rightarrow> qs'(client_id \<mapsto> add_message q message))"

definition manager_add_processor :: "queues \<Rightarrow> string \<Rightarrow> processor \<Rightarrow> queues" where
  "manager_add_processor qs client_id p =
     (case get_queue qs client_id of
        (q, qs') \<Rightarrow> qs'(client_id \<mapsto> add_processor q p))"

definition remove_client :: "queues \<Rightarrow> string \<Rightarrow> queues" where
  "remove_client qs client_id = (if client_id \<in> dom qs then qs(client_id := None) else qs)"

text \<open>The module-level state of \<^verbatim>\<open>main.py\<close>, with the running
  \<^verbatim>\<open>handle_transcriptions\<close> tasks.\<close>

record server =
  active_connections :: "websocket list"
  client_configs :: "websocket \<rightharpoonup> client_config"
  active_transcribers :: "websocket \<rightharpoonup> transcriber"
  message_manager :: queues
  session_manager :: session_manager
  transcription_tasks :: "websocket set"

definition server_init :: server where
  "server_init =
     \<lparr>active_connections = [], client_configs = Map.empty, active_transcribers = Map.empty,
      message_manager = Map.empty, session_manager = SessionManager_init,
      transcription_tasks = {}\<rparr>"

definition default_config :: "string \<Rightarrow> client_config" where
  "default_config client_id =
     \<lparr>cfg_source_language = ''en'', cfg_target_language = ''es'', cfg_role = ''speaker'',
      cfg_client_id = client_id, cfg_session_id = None,
      cfg_username = ''User-'' @ take 8 client_id\<rparr>"

text \<open>The prologue of \<^verbatim>\<open>websocket_endpoint\<close>; \<open>client_id\<close> is the value of
  \<^verbatim>\<open>str(id(websocket))\<close>.\<close>

definition accept_connection :: "server \<Rightarrow> websocket \<Rightarrow> string \<Rightarrow> server" where
  "accept_connection srv ws client_id =
     srv\<lparr>active_connections := active_connections srv @ [ws],
         active_transcribers := (active_transcribers srv)(ws \<mapsto> StreamingTranscriber_init None),
         client_configs := (client_configs srv)(ws \<mapsto> default_config client_id),
         message_manager := manager_add_processor (message_manager srv) client_id (ProcessAudio ws),
         transcription_tasks := insert ws (transcription_tasks srv)\<rparr>"

text \<open>The closure \<^verbatim>\<open>process_audio\<close>: it reads the role in \<^verbatim>\<open>client_configs\<close> when it
  runs. The transcriber it captured is the one stored for the connection.\<close>

definition process_audio :: "server \<Rightarrow> websocket \<Rightarrow> bytes \<Rightarrow> py_error + server" where
  "process_audio srv ws audio_data =
     (case client_configs srv ws of
        None \<Rightarrow> Inl KeyError
      | Some cfg \<Rightarrow>
          if cfg_role cfg = ''speaker''
          then (case active_transcribers srv ws of
                  None \<Rightarrow> Inr srv
                | Some t \<Rightarrow>
                    Inr (srv\<lparr>active_transcribers :=
                               (active_transcribers srv)(ws \<mapsto> add_audio_chunk t audio_data)\<rparr>))
          else Inr srv)"

text \<open>One pass of the loop of \<^verbatim>\<open>_process_queue\<close>: take the head, run every processor
  on it (an exception of a processor is caught and logged). On an empty queue the task
  ends.\<close>

fun run_processor :: "bytes \<Rightarrow> server \<Rightarrow> processor \<Rightarrow> server" where
  "run_processor message srv (ProcessAudio ws) =
     (case process_audio srv ws message of Inl e \<Rightarrow> srv | Inr srv' \<Rightarrow> srv')"

definition process_queue_step :: "server \<Rightarrow> string \<Rightarrow> server" where
  "process_queue_step srv client_id =
     (case message_manager srv client_id of
        None \<Rightarrow> srv
      | Some q \<Rightarrow>
          (case queue q of
             [] \<Rightarrow> srv\<lparr>message_manager :=
                        (message_manager srv)(client_id \<mapsto> q\<lparr>processing := False, task := False\<rparr>)\<rparr>
           | message # rest \<Rightarrow>
               foldl (run_processor message)
                 (srv\<lparr>message_manager :=
                        (message_manager srv)(client_id \<mapsto> q\<lparr>queue := rest, processing := True\<rparr>)\<rparr>)
                 (processors q)))"

text \<open>The handlers of the \<^verbatim>\<open>config\<close>, binary, \<^verbatim>\<open>session_join\<close> and
  \<^verbatim>\<open>session_create\<close> messages.\<close>

text \<open>\<open>drain n\<close>: \<open>n\<close> passes of the loop of \<^verbatim>\<open>_process_queue\<close> on one client's queue.\<close>

fun drain :: "nat \<Rightarrow> server \<Rightarrow> string \<Rightarrow> server" where
  "drain 0 srv client_id = srv"
| "drain (Suc n) srv client_id = drain n (process_queue_step srv client_id) client_id"

definition handle_config :: "server \<Rightarrow> websocket \<Rightarrow> config_message \<Rightarrow> py_error + server" where
  "handle_config srv ws message =
     (case client_configs srv ws of
        None \<Rightarrow> Inl KeyError
      | Some cfg \<Rightarrow>
          (let cfg1 = (case msg_source_language message of
                         None \<Rightarrow> cfg | Some l \<Rightarrow> cfg\<lparr>cfg_source_language := l\<rparr>);
               trs = (case msg_source_language message of
                        None \<Rightarrow> active_transcribers srv
                      | Some l \<Rightarrow>
                          (case active_transcribers srv ws of
                             None \<Rightarrow> active_transcribers srv
                           | Some t \<Rightarrow> (active_transcribers srv)(ws \<mapsto> set_language t l)));
               cfg2 = (case msg_target_language message of
                         None \<Rightarrow> cfg1 | Some l \<Rightarrow> cfg1\<lparr>cfg_target_language := l\<rparr>);
               cfg3 = (case msg_role message of
                         None \<Rightarrow> cfg2 | Some r \<Rightarrow> cfg2\<lparr>cfg_role := r\<rparr>);
               cfg4 = (case msg_username message of
                         None \<Rightarrow> cfg3 | Some u \<Rightarrow> cfg3\<lparr>cfg_username := u\<rparr>)
           in Inr (srv\<lparr>client_configs := (client_configs srv)(ws \<mapsto> cfg4),
                       active_transcribers := trs\<rparr>)))"

definition role_message :: "string \<Rightarrow> config_message" where
  "role_message r =
     \<lparr>msg_source_language = None, msg_target_language = None, msg_role = Some r,
      msg_username = None\<rparr>"

definition handle_bytes :: "server \<Rightarrow> websocket \<Rightarrow> bytes \<Rightarrow> py_error + server" where
  "handle_bytes srv ws audio_data =
     (if audio_data \<noteq> []
      then (case client_configs srv ws of
              None \<Rightarrow> Inl KeyError
            | Some cfg \<Rightarrow>
                if cfg_client_id cfg \<noteq> []
                then Inr (srv\<lparr>message_manager :=
                               manager_add_message (message_manager srv) (cfg_client_id cfg) audio_data\<rparr>)
                else if cfg_role cfg = ''speaker''
                then (case active_transcribers srv ws of
                        None \<Rightarrow> Inr srv
                      | Some t \<Rightarrow>
                          Inr (srv\<lparr>active_transcribers :=
                                 (active_transcribers srv)(ws \<mapsto> add_audio_chunk t audio_data)\<rparr>))
                else Inr srv)
      else Inr srv)"

definition config_user_info :: "client_config \<Rightarrow> user_info" where
  "config_user_info cfg =
     \<lparr>username = cfg_username cfg, role = cfg_role cfg,
      source_language = cfg_source_language cfg, target_language = cfg_target_language cfg\<rparr>"

definition handle_session_join ::
  "server \<Rightarrow> websocket \<Rightarrow> string \<Rightarrow> datetime \<Rightarrow> py_error + server" where
  "handle_session_join srv ws sid now =
     (if sid = [] then Inr srv
      else (case client_configs srv ws of
              None \<Rightarrow> Inl KeyError
            | Some cfg \<Rightarrow>
                (case join_session (session_manager srv) sid ws (config_user_info cfg) now of
                   (True, m) \<Rightarrow>
                     Inr (srv\<lparr>session_manager := m,
                             client_configs :=
                               (client_configs srv)(ws \<mapsto> cfg\<lparr>cfg_session_id := Some sid\<rparr>)\<rparr>)
                 | (False, m) \<Rightarrow> Inr (srv\<lparr>session_manager := m\<rparr>))))"

definition handle_session_create ::
  "server \<Rightarrow> websocket \<Rightarrow> string \<Rightarrow> string \<Rightarrow> int \<Rightarrow> datetime \<Rightarrow> py_error + server" where
  "handle_session_create srv ws sid nm maxp now =
     (case create_session (session_manager srv) sid nm maxp now of
        (s, m0) \<Rightarrow>
          (case client_configs srv ws of
             None \<Rightarrow> Inl KeyError
           | Some cfg \<Rightarrow>
               (case join_session m0 (session_id s) ws (config_user_info cfg) now of
                  (True, m) \<Rightarrow>
                    Inr (srv\<lparr>session_manager := m,
                            client_configs :=
                              (client_configs srv)(ws \<mapsto> cfg\<lparr>cfg_session_id := Some (session_id s)\<rparr>)\<rparr>)
                | (False, m) \<Rightarrow> Inr (srv\<lparr>session_manager := m\<rparr>))))"

text \<open>The \<^verbatim>\<open>finally\<close> block of \<^verbatim>\<open>websocket_endpoint\<close>, with the list of the clean-up
  actions it performs, in order.\<close>

datatype cleanup_action =
    StoppedTranscriber transcriber
  | RemovedConnection
  | DiscardedConfig
  | RemovedQueue string
  | CancelledTask

definition disconnect_cleanup :: "server \<Rightarrow> websocket \<Rightarrow> server \<times> cleanup_action list" where
  "disconnect_cleanup srv ws =
     (let client_id = (case client_configs srv ws of
                         None \<Rightarrow> None | Some cfg \<Rightarrow> Some (cfg_client_id cfg));
          (s1, a1) = (case active_transcribers srv ws of
                        None \<Rightarrow> (srv, [])
                      | Some t \<Rightarrow>
                          (srv\<lparr>active_transcribers := (active_transcribers srv)(ws := None)\<rparr>,
                           [StoppedTranscriber (stop t)]));
          (s2, a2) = (if ws \<in> set (active_connections s1)
                      then (s1\<lparr>active_connections := remove1 ws (active_connections s1)\<rparr>,
                            [RemovedConnection])
                      else (s1, []));
          (s3, a3) = (if ws \<in> dom (client_configs s2)
                      then (s2\<lparr>client_configs := (client_configs s2)(ws := None)\<rparr>,
                            [DiscardedConfig])
                      else (s2, []));
          (s4, a4) = (case client_id of
                        None \<Rightarrow> (s3, [])
                      | Some cid \<Rightarrow>
                          if cid \<noteq> []
                          then (s3\<lparr>message_manager := remove_client (message_manager s3) cid\<rparr>,
                                [RemovedQueue cid])
                          else (s3, []));
          s5 = s4\<lparr>transcription_tasks := transcription_tasks s4 - {ws}\<rparr>
      in (s5, a1 @ a2 @ a3 @ a4 @ [CancelledTask]))"

text \<open>Concrete scenarios.\<close>

definition two_clients_connected :: server where
  "two_clients_connected = accept_connection (accept_connection server_init 1 ''1001'') 2 ''1002''"

definition session_created :: "py_error + server" where
  "session_created = handle_session_create two_clients_connected 1 ''s1'' ''room'' 2 10"

definition session_joined :: "py_error + server" where
  "session_joined = handle_session_join (projr session_created) 2 ''s1'' 20"

definition listener_with_queued_chunk :: server where
  "listener_with_queued_chunk =
     projr (handle_bytes
       (projr (handle_config two_clients_connected 1 (role_message ''listener''))) 1 [1, 2, 3])"

definition two_clients_in_session :: server where
  "two_clients_in_session = projr session_joined"


section \<open>Properties of the audio accumulator\<close>

lemma get_new_audio_twice:
  "fst (get_new_audio (snd (get_new_audio ab))) = None"
  by (simp add: get_new_audio_def)

lemma audio_run_conservation:
  "audio_run ab ops = (ab', rs) \<Longrightarrow>
     bytes_returned rs @ concat (buffer ab') = concat (buffer ab) @ bytes_added ops"
proof (induction ab ops arbitrary: ab' rs rule: audio_run.induct)
  case (1 ab)
  then show ?case by simp
next
  case (2 ab c ops)
  then show ?case by (simp add: add_chunk_def)
next
  case (3 ab ops)
  obtain r ab1 where g: "get_new_audio ab = (r, ab1)"
    by (cases "get_new_audio ab")
  obtain ab2 rs2 where run: "audio_run ab1 ops = (ab2, rs2)"
    by (cases "audio_run ab1 ops")
  from "3.prems" g run have res: "ab' = ab2" "rs = r # rs2"
    by simp_all
  from "3.IH" [OF g [symmetric] run]
  have ih: "bytes_returned rs2 @ concat (buffer ab2) = concat (buffer ab1) @ bytes_added ops" .
  show ?case
  proof (cases "buffer ab = []")
    case True
    with g have "r = None" "ab1 = ab"
      by (simp_all add: get_new_audio_def)
    with ih res True show ?thesis by simp
  next
    case False
    with g have "r = Some (concat (buffer ab))" "buffer ab1 = []"
      by (auto simp add: get_new_audio_def)
    with ih res show ?thesis by simp
  qed
qed

lemma audio_run_append:
  "audio_run ab (ops @ ops') =
     (case audio_run ab ops of
        (ab1, rs1) \<Rightarrow> (case audio_run ab1 ops' of (ab2, rs2) \<Rightarrow> (ab2, rs1 @ rs2)))"
  by (induction ab ops rule: audio_run.induct) (simp_all split: prod.splits)

lemma bytes_added_append: "bytes_added (ops @ ops') = bytes_added ops @ bytes_added ops'"
  by (induction ops rule: bytes_added.induct) simp_all

lemma audio_run_final_take:
  assumes "audio_run ab (ops @ [TakeAll]) = (ab', rs)"
  shows "buffer ab' = []"
proof -
  obtain ab1 rs1 where r1: "audio_run ab ops = (ab1, rs1)"
    by (cases "audio_run ab ops")
  with assms have "ab' = snd (get_new_audio ab1)"
    by (simp add: audio_run_append split: prod.splits)
  then show ?thesis by (simp add: get_new_audio_def)
qed

text \<open>
  Claim C6. Two \<^verbatim>\<open>get_new_audio\<close> calls with no \<^verbatim>\<open>add_chunk\<close> between them: the second
  returns \<^verbatim>\<open>None\<close>. For every interleaving of \<^verbatim>\<open>add_chunk\<close> and \<^verbatim>\<open>get_new_audio\<close> on a
  fresh buffer, the bytes returned so far followed by the bytes still buffered are
  exactly the bytes added, in order; once a final \<^verbatim>\<open>get_new_audio\<close> has drained the
  buffer, the bytes returned are exactly the bytes added.
\<close>

theorem audio_buffer_no_loss_no_duplication:
  "fst (get_new_audio (snd (get_new_audio ab))) = None \<and>
   bytes_returned (snd (audio_run (AudioBuffer_init rate csize) ops))
     @ concat (buffer (fst (audio_run (AudioBuffer_init rate csize) ops)))
     = bytes_added ops \<and>
   bytes_returned (snd (audio_run (AudioBuffer_init rate csize) (ops @ [TakeAll])))
     = bytes_added ops \<and>
   buffer (fst (audio_run (AudioBuffer_init rate csize) (ops @ [TakeAll]))) = []"
proof -
  let ?init = "AudioBuffer_init rate csize"
  have b0: "buffer ?init = []"
    by (simp add: AudioBuffer_init_def)
  obtain ab1 rs1 where r1: "audio_run ?init ops = (ab1, rs1)"
    by (cases "audio_run ?init ops")
  obtain ab2 rs2 where r2: "audio_run ?init (ops @ [TakeAll]) = (ab2, rs2)"
    by (cases "audio_run ?init (ops @ [TakeAll])")
  from audio_run_conservation [OF r1] b0
  have c1: "bytes_returned rs1 @ concat (buffer ab1) = bytes_added ops"
    by simp
  from audio_run_final_take [OF r2] have e2: "buffer ab2 = []" .
  from audio_run_conservation [OF r2] b0 e2
  have c2: "bytes_returned rs2 = bytes_added ops"
    by (simp add: bytes_added_append)
  from c1 c2 e2 r1 r2 show ?thesis
    by (simp add: get_new_audio_twice)
qed

theorem audio_buffer_no_loss_no_duplication_witness:
  "fst (get_new_audio (snd (get_new_audio (add_chunk AudioBuffer_default [1, 2])))) = None \<and>
   snd (audio_run AudioBuffer_default [AddChunk [1, 2], TakeAll, TakeAll, AddChunk [3], AddChunk [], TakeAll])
     = [Some [1, 2], None, Some [3]] \<and>
   bytes_returned (snd (audio_run AudioBuffer_default
       ([AddChunk [1, 2], TakeAll, TakeAll, AddChunk [3], AddChunk []] @ [TakeAll])))
     = [1, 2, 3]"
  using audio_buffer_no_loss_no_duplication
    [of "add_chunk AudioBuffer_default [1, 2]" 16000 4096
        "[AddChunk [1, 2], TakeAll, TakeAll, AddChunk [3], AddChunk []]"]
  by (simp add: AudioBuffer_default_def AudioBuffer_init_def add_chunk_def get_new_audio_def)


section \<open>Properties of the message queue\<close>

lemma deque_append_drop:
  "length q \<le> n \<Longrightarrow> deque_append n q x = drop (length q + 1 - n) (q @ [x])"
proof (cases "length q = n")
  case True
  then show ?thesis
    by (cases q) (simp_all add: deque_append_def)
next
  case False
  assume "length q \<le> n"
  with False have "length q < n" by simp
  then show ?thesis
    by (simp add: deque_append_def)
qed

lemma deque_append_length: "length q \<le> n \<Longrightarrow> length (deque_append n q x) \<le> n"
  by (auto simp add: deque_append_def Let_def)

lemma add_message_fields:
  "queue (add_message q m) = deque_append (maxlen q) (queue q) m"
  "maxlen (add_message q m) = maxlen q"
  by (simp_all add: add_message_def Let_def)

lemma add_messages_snoc: "add_messages q (ms @ [m]) = add_message (add_messages q ms) m"
  by (simp add: add_messages_def)

lemma add_messages_queue:
  "length (queue q) \<le> maxlen q \<Longrightarrow>
     maxlen (add_messages q ms) = maxlen q \<and>
     queue (add_messages q ms) = drop (length (queue q) + length ms - maxlen q) (queue q @ ms)"
proof (induction ms rule: rev_induct)
  case Nil
  then show ?case by (simp add: add_messages_def)
next
  case (snoc m ms)
  let ?q1 = "add_messages q ms"
  let ?d = "length (queue q) + length ms - maxlen q"
  from snoc have ml: "maxlen ?q1 = maxlen q"
    and qu: "queue ?q1 = drop ?d (queue q @ ms)"
    by simp_all
  from qu snoc.prems have len: "length (queue ?q1) \<le> maxlen ?q1"
    by (simp add: ml)
  have "queue (add_message ?q1 m) = drop (length (queue ?q1) + 1 - maxlen q) (queue ?q1 @ [m])"
    using deque_append_drop [OF len] by (simp add: add_message_fields ml)
  also have "\<dots> = drop (length (queue q) + length (ms @ [m]) - maxlen q) (queue q @ ms @ [m])"
  proof -
    let ?xs = "queue q @ ms"
    have d: "?d \<le> length ?xs" by simp
    have "drop (length (drop ?d ?xs) + 1 - maxlen q) (drop ?d ?xs @ [m])
            = drop (length (drop ?d ?xs) + 1 - maxlen q) (drop ?d (?xs @ [m]))"
      using d by simp
    also have "\<dots> = drop (length (drop ?d ?xs) + 1 - maxlen q + ?d) (?xs @ [m])"
      by (simp only: drop_drop)
    also have "length (drop ?d ?xs) + 1 - maxlen q + ?d = length ?xs + 1 - maxlen q"
      by (cases "length ?xs \<le> maxlen q") simp_all
    finally show ?thesis
      by (simp add: qu)
  qed
  finally show ?case
    by (simp add: add_messages_snoc add_message_fields ml)
qed

text \<open>
  Claim C4. A queue holds at most \<open>maxlen\<close> messages (100 by default). After any sequence
  of \<^verbatim>\<open>add_message\<close> calls longer than the capacity, the queue holds exactly the last
  \<open>maxlen\<close> messages of the sequence, in arrival order. On a full queue a single
  \<^verbatim>\<open>add_message\<close> drops the oldest entry and appends the new one; whenever the capacity
  is positive the new message is admitted as the last entry (it is never rejected).
\<close>

theorem message_queue_drop_oldest:
  assumes "length (queue q) \<le> maxlen q"
  shows "(length ms > maxlen q \<longrightarrow>
            queue (add_messages q ms) = drop (length ms - maxlen q) ms \<and>
            length (queue (add_messages q ms)) = maxlen q) \<and>
         (length (queue q) = maxlen q \<and> 0 < maxlen q \<longrightarrow>
            queue (add_message q m) = tl (queue q) @ [m]) \<and>
         (0 < maxlen q \<longrightarrow>
            queue (add_message q m) \<noteq> [] \<and> last (queue (add_message q m)) = m) \<and>
         length (queue (add_message q m)) \<le> maxlen q \<and>
         maxlen (MessageQueue_default :: 'a message_queue) = 100 \<and>
         queue (MessageQueue_default :: 'a message_queue) = []"
proof -
  have a: "queue (add_messages q ms) = drop (length ms - maxlen q) ms"
    and a': "length (queue (add_messages q ms)) = maxlen q" if "length ms > maxlen q"
    using add_messages_queue [OF assms, of ms] that assms by simp_all
  have b: "queue (add_message q m) = tl (queue q) @ [m]"
    if "length (queue q) = maxlen q" "0 < maxlen q"
    using that by (cases "queue q") (simp_all add: add_message_fields deque_append_def)
  have c: "queue (add_message q m) \<noteq> [] \<and> last (queue (add_message q m)) = m"
    if "0 < maxlen q"
    using that assms
    by (cases "queue q") (auto simp add: add_message_fields deque_append_def Let_def)
  have d: "length (queue (add_message q m)) \<le> maxlen q"
    using deque_append_length [OF assms] by (simp add: add_message_fields)
  from a a' b c d show ?thesis
    by (simp add: MessageQueue_default_def)
qed

theorem message_queue_drop_oldest_witness:
  "queue (add_messages \<lparr>queue = [1, 2 :: nat], maxlen = 2, processing = False, task = False,
                        processors = []\<rparr> [3, 4, 5]) = [4, 5] \<and>
   queue (add_message \<lparr>queue = [1, 2 :: nat], maxlen = 2, processing = False, task = False,
                        processors = []\<rparr> 3) = [2, 3]"
  using message_queue_drop_oldest
    [of "\<lparr>queue = [1, 2 :: nat], maxlen = 2, processing = False, task = False,
          processors = []\<rparr>" "[3, 4, 5]" 3]
  by (simp add: add_messages_def add_message_def deque_append_def)


section \<open>Properties of the session manager\<close>

lemma add_participant_cases:
  "add_participant s ws info now = (b, s') \<Longrightarrow>
     session_id s' = session_id s \<and> max_participants s' = max_participants s \<and>
     (if is_full s then \<not> b \<and> s' = s
      else b \<and> participants s' = AList.update ws info (participants s) \<and> last_activity s' = now)"
  by (auto simp add: add_participant_def is_full_def split: if_splits)

lemma remove_participant_cases:
  "remove_participant s ws now = (b, s') \<Longrightarrow>
     session_id s' = session_id s \<and> max_participants s' = max_participants s \<and>
     (if ws \<in> fst ` set (participants s)
      then b \<and> participants s' = AList.delete ws (participants s) \<and> last_activity s' = now
      else \<not> b \<and> s' = s)"
  by (auto simp add: remove_participant_def split: if_splits)

lemma join_session_cases:
  "join_session m sid ws info now =
     (case sessions m sid of
        None \<Rightarrow> (False, m)
      | Some s \<Rightarrow>
          if is_full s then (False, m)
          else (True, m\<lparr>sessions := (sessions m)(sid \<mapsto>
                           s\<lparr>participants := AList.update ws info (participants s),
                             last_activity := now\<rparr>),
                         client_sessions := (client_sessions m)(ws \<mapsto> sid)\<rparr>))"
  by (simp add: join_session_def get_session_def add_participant_def is_full_def
      split: option.splits)

lemma length_update_le: "length (AList.update k v al) \<le> Suc (length al)"
  by (induction al) auto

lemma length_update_new:
  "k \<notin> fst ` set al \<Longrightarrow> length (AList.update k v al) = Suc (length al)"
  by (induction al) auto

lemma length_delete_le: "length (AList.delete k al) \<le> length al"
  by (simp add: AList.delete_eq)


lemma leave_session_cases:
  assumes "keyed_by_id m"
  shows "leave_session m ws now =
     (case get_client_session m ws of
        None \<Rightarrow> Inr (False, m)
      | Some s \<Rightarrow>
          if ws \<in> fst ` set (participants s)
          then Inr (True,
                 m\<lparr>sessions :=
                     (if AList.delete ws (participants s) = []
                      then (sessions m)(session_id s := None)
                      else (sessions m)(session_id s \<mapsto>
                             s\<lparr>participants := AList.delete ws (participants s),
                               last_activity := now\<rparr>)),
                   client_sessions := (client_sessions m)(ws := None)\<rparr>)
          else Inr (False, m))"
proof (cases "get_client_session m ws")
  case None
  then show ?thesis by (simp add: leave_session_def)
next
  case (Some s)
  then obtain sid where cs: "client_sessions m ws = Some sid" and ss: "sessions m sid = Some s"
    by (auto simp add: get_client_session_def get_session_def split: option.splits if_splits)
  from assms ss have k: "session_id s = sid"
    by (simp add: keyed_by_id_def)
  show ?thesis
    using Some cs ss k
    by (simp add: leave_session_def remove_participant_def is_empty_def store_back_def Let_def)
qed

lemma apply_op_capacity:
  assumes "keyed_by_id m" "within_capacity m"
  shows "\<exists>m'. apply_op m x = Inr m' \<and> keyed_by_id m' \<and> within_capacity m'"
proof (cases x)
  case (CreateSession sid nm maxp now)
  with assms show ?thesis
    by (auto simp add: create_session_def Session_init_def keyed_by_id_def within_capacity_def Let_def)
next
  case (JoinSession sid ws info now)
  show ?thesis
  proof (cases "sessions m sid")
    case None
    with assms JoinSession show ?thesis by (simp add: join_session_cases)
  next
    case (Some s)
    show ?thesis
    proof (cases "is_full s")
      case True
      with assms JoinSession Some show ?thesis by (simp add: join_session_cases)
    next
      case False
      then have "int (length (participants s)) < max_participants s"
        by (simp add: is_full_def)
      with length_update_le [of ws info "participants s"]
      have "int (length (AList.update ws info (participants s))) \<le> max 0 (max_participants s)"
        by linarith
      with assms JoinSession Some False show ?thesis
        by (auto simp add: join_session_cases keyed_by_id_def within_capacity_def)
    qed
  qed
next
  case (LeaveSession ws now)
  show ?thesis
  proof (cases "get_client_session m ws")
    case None
    with assms LeaveSession show ?thesis by (simp add: leave_session_cases)
  next
    case (Some s)
    then obtain sid where ss: "sessions m sid = Some s"
      by (auto simp add: get_client_session_def get_session_def split: option.splits if_splits)
    with assms have cap: "int (length (participants s)) \<le> max 0 (max_participants s)"
      and k: "session_id s = sid"
      by (auto simp add: within_capacity_def keyed_by_id_def)
    from cap length_delete_le [of ws "participants s"]
    have "int (length (AList.delete ws (participants s))) \<le> max 0 (max_participants s)"
      by linarith
    with assms LeaveSession Some k show ?thesis
      by (auto simp add: leave_session_cases keyed_by_id_def within_capacity_def)
  qed
next
  case (Sweep now)
  with assms show ?thesis
    by (auto simp add: cleanup_inactive_sessions_def keyed_by_id_def within_capacity_def
        split: option.splits if_splits)
qed

lemma run_ops_capacity:
  "keyed_by_id m \<Longrightarrow> within_capacity m \<Longrightarrow>
     \<exists>m'. run_ops m xs = Inr m' \<and> keyed_by_id m' \<and> within_capacity m'"
proof (induction xs arbitrary: m)
  case Nil
  then show ?case by simp
next
  case (Cons x xs)
  from apply_op_capacity [OF Cons.prems, of x]
  obtain m1 where "apply_op m x = Inr m1" "keyed_by_id m1" "within_capacity m1"
    by blast
  with Cons.IH [of m1] show ?case by simp
qed




lemma init_invariants:
  "keyed_by_id SessionManager_init" "within_capacity SessionManager_init"
  "index_sound SessionManager_init" "ids_within {} SessionManager_init"
  "index_live SessionManager_init"
  by (simp_all add: SessionManager_init_def keyed_by_id_def within_capacity_def
      index_sound_def ids_within_def index_live_def)










text \<open>
  Claim C3, as the code has it. After any sequence of manager operations, every
  session with a non-negative \<^verbatim>\<open>max_participants\<close> has at most that many participants.
  \<^verbatim>\<open>join_session\<close> returns \<^verbatim>\<open>False\<close> exactly when the session does not exist or is at
  capacity, and then the manager (participants and reverse index) is unchanged. When
  exactly one slot remains and the first joiner is not already a participant, the
  first join succeeds and any second join of that session fails.
\<close>

theorem join_respects_capacity:
  "(\<exists>m0. run_ops SessionManager_init xs = Inr m0 \<and>
      (\<forall>sid s. sessions m0 sid = Some s \<longrightarrow> 0 \<le> max_participants s \<longrightarrow>
         int (length (participants s)) \<le> max_participants s)) \<and>
   (fst (join_session m sid ws info now) = False \<longleftrightarrow>
      (sessions m sid = None \<or>
       (\<exists>s. sessions m sid = Some s \<and> int (length (participants s)) \<ge> max_participants s))) \<and>
   (\<not> fst (join_session m sid ws info now) \<longrightarrow> snd (join_session m sid ws info now) = m) \<and>
   (\<forall>s. sessions m sid = Some s \<longrightarrow> int (length (participants s)) + 1 = max_participants s \<longrightarrow>
        ws \<notin> fst ` set (participants s) \<longrightarrow>
          fst (join_session m sid ws info now) \<and>
          \<not> fst (join_session (snd (join_session m sid ws info now)) sid ws' info' now'))"
proof -
  from run_ops_capacity [OF init_invariants(1,2), of xs]
  obtain m0 where r: "run_ops SessionManager_init xs = Inr m0" and c: "within_capacity m0"
    by blast
  have a: "\<forall>sid s. sessions m0 sid = Some s \<longrightarrow> 0 \<le> max_participants s \<longrightarrow>
         int (length (participants s)) \<le> max_participants s"
  proof (intro allI impI)
    fix sid s
    assume ss: "sessions m0 sid = Some s" and nonneg: "0 \<le> max_participants s"
    from c ss have "int (length (participants s)) \<le> max 0 (max_participants s)"
      by (simp add: within_capacity_def)
    with nonneg show "int (length (participants s)) \<le> max_participants s"
      by simp
  qed
  have b: "fst (join_session m sid ws info now) = False \<longleftrightarrow>
      (sessions m sid = None \<or>
       (\<exists>s. sessions m sid = Some s \<and> int (length (participants s)) \<ge> max_participants s))"
    by (auto simp add: join_session_cases is_full_def split: option.splits)
  have d: "\<not> fst (join_session m sid ws info now) \<longrightarrow> snd (join_session m sid ws info now) = m"
    by (auto simp add: join_session_cases split: option.splits)
  have e: "fst (join_session m sid ws info now) \<and>
          \<not> fst (join_session (snd (join_session m sid ws info now)) sid ws' info' now')"
    if "sessions m sid = Some s" "int (length (participants s)) + 1 = max_participants s"
      "ws \<notin> fst ` set (participants s)" for s
    using that length_update_new [of ws "participants s" info]
    by (simp add: join_session_cases is_full_def)
  from r a b d e show ?thesis by blast
qed

theorem join_respects_capacity_witness:
  "sessions one_slot_manager ''s1'' \<noteq> None \<and>
   fst (join_session one_slot_manager ''s1'' 2 example_info 2) \<and>
   \<not> fst (join_session (snd (join_session one_slot_manager ''s1'' 2 example_info 2))
           ''s1'' 3 example_info 3)"
proof -
  have s: "sessions one_slot_manager ''s1'' =
      Some \<lparr>session_id = ''s1'', name = ''room'', created_at = 0, max_participants = 2,
            participants = [(1, example_info)], last_activity = 1\<rparr>"
    by (simp add: one_slot_manager_def create_session_def Session_init_def
        join_session_cases is_full_def SessionManager_init_def Let_def)
  from join_respects_capacity
    [of "[]" one_slot_manager "''s1''" 2 example_info 2 3 example_info 3] s
  show ?thesis by simp
qed

text \<open>
  A session created with \<^verbatim>\<open>max_participants = -1\<close> has 0 participants, more than its
  bound. In a session of capacity 2 holding client 1, client 1 joining again and then
  client 2 joining both return \<^verbatim>\<open>True\<close>, although one slot remained.
\<close>

theorem join_capacity_counterexample:
  "sessions negative_capacity_manager ''s1'' \<noteq> None \<and>
   int (length (participants (the (sessions negative_capacity_manager ''s1''))))
     > max_participants (the (sessions negative_capacity_manager ''s1'')) \<and>
   length (participants (the (sessions one_slot_manager ''s1''))) = 1 \<and>
   max_participants (the (sessions one_slot_manager ''s1'')) = 2 \<and>
   fst (join_session one_slot_manager ''s1'' 1 example_info 2) \<and>
   fst (join_session (snd (join_session one_slot_manager ''s1'' 1 example_info 2))
          ''s1'' 2 example_info 3)"
  by (simp add: negative_capacity_manager_def one_slot_manager_def create_session_def
      Session_init_def join_session_cases is_full_def SessionManager_init_def Let_def)





section \<open>Properties of the recognition loop\<close>

lemma iteration_calls:
  "recognition_calls (snd (process_audio_iteration recognize t)) =
     (if buffer (audio_buffer t) \<noteq> [] \<and> 8000 \<le> length (concat (buffer (audio_buffer t)))
      then [Recognized (concat (buffer (audio_buffer t))) (language t)] else [])"
  by (auto simp add: process_audio_iteration_def get_new_audio_def transcribe_audio_chunk_def
      recognition_calls_def truthy_def Let_def split: option.splits sum.splits)

lemma iteration_fields:
  "running (fst (process_audio_iteration recognize t)) = running t"
  "buffer (audio_buffer (fst (process_audio_iteration recognize t))) = []"
  "language (fst (process_audio_iteration recognize t)) = language t"
  by (auto simp add: process_audio_iteration_def get_new_audio_def transcribe_audio_chunk_def
      truthy_def Let_def split: option.splits sum.splits prod.splits)

lemma five_buffer:
  "buffer (audio_buffer five_chunk_transcriber) =
     [chunk_2000, chunk_2000, chunk_2000, chunk_2000, chunk_2000]"
  "buffer (audio_buffer three_chunk_transcriber) = [chunk_2000, chunk_2000, chunk_2000]"
  by (simp_all add: five_chunk_transcriber_def three_chunk_transcriber_def add_audio_chunk_def
      add_chunk_def start_def StreamingTranscriber_init_def AudioBuffer_default_def
      AudioBuffer_init_def)

lemma add_audio_chunks_fields:
  "running (foldl add_audio_chunk t cs) = running t"
  by (induction cs arbitrary: t) (simp_all add: add_audio_chunk_def)

lemma loop_calls_bounded:
  "length (recognition_calls (snd (transcriber_process_audio recognize ticks t))) \<le> length ticks"
proof (induction ticks arbitrary: t)
  case Nil
  then show ?case by (simp add: recognition_calls_def)
next
  case (Cons arrived ticks)
  let ?t0 = "foldl add_audio_chunk t arrived"
  obtain t1 ev where it: "process_audio_iteration recognize ?t0 = (t1, ev)"
    by (cases "process_audio_iteration recognize ?t0")
  obtain st evs where lp: "transcriber_process_audio recognize ticks t1 = (st, evs)"
    by (cases "transcriber_process_audio recognize ticks t1")
  from iteration_calls [of recognize ?t0] it
  have one: "length (recognition_calls ev) \<le> 1"
    by (simp split: if_splits)
  from Cons.IH [of t1] lp have rest: "length (recognition_calls evs) \<le> length ticks"
    by simp
  from one rest it lp show ?case
    by (simp add: recognition_calls_def)
qed

lemma loop_keeps_running:
  "running t \<Longrightarrow>
     \<exists>t'. fst (transcriber_process_audio recognize ticks t) = StillRunning t' \<and> running t'"
proof (induction ticks arbitrary: t)
  case Nil
  then show ?case by simp
next
  case (Cons arrived ticks)
  let ?t0 = "foldl add_audio_chunk t arrived"
  obtain t1 ev where it: "process_audio_iteration recognize ?t0 = (t1, ev)"
    by (cases "process_audio_iteration recognize ?t0")
  with iteration_fields(1) [of recognize ?t0] Cons.prems have "running t1"
    by (simp add: add_audio_chunks_fields)
  from Cons.IH [OF this] obtain t' where
    "fst (transcriber_process_audio recognize ticks t1) = StillRunning t'" "running t'"
    by blast
  with Cons.prems it show ?case
    by (cases "transcriber_process_audio recognize ticks t1") simp
qed

text \<open>
  Claim C7, as the code has it. In one pass of the recognition loop the recognizer is
  called exactly when the bytes taken from the buffer are non-empty and at least 8000 in
  total, and then exactly once, on all of them; otherwise it is not called. Either way
  the buffer is empty afterwards. Over any schedule the loop makes at most one call per
  tick.
\<close>

theorem recognition_threshold:
  "recognition_calls (snd (process_audio_iteration recognize t)) =
     (if buffer (audio_buffer t) \<noteq> [] \<and> 8000 \<le> length (concat (buffer (audio_buffer t)))
      then [Recognized (concat (buffer (audio_buffer t))) (language t)] else []) \<and>
   length (recognition_calls (snd (process_audio_iteration recognize t))) \<le> 1 \<and>
   buffer (audio_buffer (fst (process_audio_iteration recognize t))) = [] \<and>
   length (recognition_calls (snd (transcriber_process_audio recognize ticks t0))) \<le> length ticks"
  using iteration_calls [of recognize t] iteration_fields(2) [of recognize t]
    loop_calls_bounded [of recognize ticks t0]
  by simp

theorem recognition_threshold_witness:
  "recognition_calls (snd (process_audio_iteration example_recognizer three_chunk_transcriber)) = [] \<and>
   length (concat (buffer (audio_buffer three_chunk_transcriber))) = 6000 \<and>
   recognition_calls (snd (process_audio_iteration example_recognizer
       (add_audio_chunk three_chunk_transcriber chunk_2000))) =
     [Recognized (concat [chunk_2000, chunk_2000, chunk_2000, chunk_2000]) ''en'']"
proof -
  have l: "language three_chunk_transcriber = ''en''"
    by (simp add: three_chunk_transcriber_def add_audio_chunk_def start_def
        StreamingTranscriber_init_def)
  from recognition_threshold [of example_recognizer three_chunk_transcriber "[]" three_chunk_transcriber]
    recognition_threshold [of example_recognizer "add_audio_chunk three_chunk_transcriber chunk_2000"
       "[]" three_chunk_transcriber] l
  show ?thesis
    by (simp add: five_buffer chunk_2000_def add_audio_chunk_def add_chunk_def)
qed

text \<open>
  Five chunks of 2000 bytes, each below 8000 bytes, total 10000 bytes: the pass that
  takes them calls the recognizer once.
\<close>

theorem five_chunks_are_recognized:
  "length chunk_2000 = 2000 \<and>
   buffer (audio_buffer five_chunk_transcriber) =
     [chunk_2000, chunk_2000, chunk_2000, chunk_2000, chunk_2000] \<and>
   length (recognition_calls
     (snd (process_audio_iteration example_recognizer five_chunk_transcriber))) = 1"
  by (simp add: iteration_calls five_buffer) (simp add: chunk_2000_def)

text \<open>
  Claim C8, as the code has it. When the recognizer raises in a pass that took at least
  8000 bytes, the exception is caught and logged, the empty result \<^verbatim>\<open>("", 0.0)\<close> is
  appended to the result queue, no callback is called, and the running flag is
  unchanged. Whatever the recognizer does, a running loop is still running after any
  number of ticks.
\<close>

theorem recognizer_failure_contained:
  assumes "buffer (audio_buffer t) \<noteq> []"
    and "8000 \<le> length (concat (buffer (audio_buffer t)))"
    and "recognize (concat (buffer (audio_buffer t))) (language t) = Inl e"
  shows "process_audio_iteration recognize t =
           (t\<lparr>audio_buffer := (audio_buffer t)\<lparr>buffer := []\<rparr>,
              transcription_queue := transcription_queue t @ [('''', 0)]\<rparr>,
            [Recognized (concat (buffer (audio_buffer t))) (language t),
             Logged (''Transcription error: '' @ e)]) \<and>
         running (fst (process_audio_iteration recognize t)) = running t \<and>
         (running t \<longrightarrow>
            (\<exists>t'. fst (transcriber_process_audio recognize' ticks t) = StillRunning t' \<and>
                  running t'))"
proof -
  have a: "process_audio_iteration recognize t =
           (t\<lparr>audio_buffer := (audio_buffer t)\<lparr>buffer := []\<rparr>,
              transcription_queue := transcription_queue t @ [('''', 0)]\<rparr>,
            [Recognized (concat (buffer (audio_buffer t))) (language t),
             Logged (''Transcription error: '' @ e)])"
    using assms
    by (simp add: process_audio_iteration_def get_new_audio_def transcribe_audio_chunk_def
        truthy_def Let_def split: option.splits)
  from a loop_keeps_running [of t recognize' ticks] iteration_fields(1) [of recognize t]
  show ?thesis by simp
qed

theorem recognizer_failure_contained_witness:
  "transcription_queue (fst (process_audio_iteration failing_recognizer five_chunk_transcriber))
     = [('''', 0)] \<and>
   running (fst (process_audio_iteration failing_recognizer five_chunk_transcriber)) \<and>
   (\<exists>t'. fst (transcriber_process_audio failing_recognizer [[chunk_2000], []] five_chunk_transcriber)
           = StillRunning t' \<and> running t')"
proof -
  have r: "running five_chunk_transcriber" "transcription_queue five_chunk_transcriber = []"
    by (simp_all add: five_chunk_transcriber_def add_audio_chunk_def start_def
        StreamingTranscriber_init_def)
  have b: "buffer (audio_buffer five_chunk_transcriber) \<noteq> []"
    by (simp add: five_buffer)
  have l: "8000 \<le> length (concat (buffer (audio_buffer five_chunk_transcriber)))"
    by (simp add: five_buffer chunk_2000_def)
  have f: "failing_recognizer (concat (buffer (audio_buffer five_chunk_transcriber)))
             (language five_chunk_transcriber) = Inl ''engine failure''"
    by (simp add: failing_recognizer_def)
  from recognizer_failure_contained
    [where t = five_chunk_transcriber and recognize = failing_recognizer
       and recognize' = failing_recognizer and ticks = "[[chunk_2000], []]", OF b l f] r
  show ?thesis by simp
qed

text \<open>
  A failing recognizer on 10000 buffered bytes: the result queue, empty before the pass,
  holds \<^verbatim>\<open>("", 0.0)\<close> after it.
\<close>

theorem failed_recognition_is_queued:
  "failing_recognizer (concat (buffer (audio_buffer five_chunk_transcriber))) ''en''
     = Inl ''engine failure'' \<and>
   transcription_queue five_chunk_transcriber = [] \<and>
   transcription_queue (fst (process_audio_iteration failing_recognizer five_chunk_transcriber))
     = [('''', 0)]"
proof -
  have r: "transcription_queue five_chunk_transcriber = []" "callback five_chunk_transcriber = None"
    by (simp_all add: five_chunk_transcriber_def add_audio_chunk_def start_def
        StreamingTranscriber_init_def)
  have l: "8000 \<le> length (concat (buffer (audio_buffer five_chunk_transcriber)))"
    by (simp add: five_buffer chunk_2000_def)
  have b: "buffer (audio_buffer five_chunk_transcriber) \<noteq> []"
    by (simp add: five_buffer)
  show ?thesis
    using r l b
    by (simp add: process_audio_iteration_def get_new_audio_def transcribe_audio_chunk_def
        truthy_def Let_def failing_recognizer_def)
qed

section \<open>Stopping the controller\<close>

lemma stop_fields:
  "running (stop t) = False"
  "processing_thread (stop t) = False"
  "audio_buffer (stop t) = clear_buffer (audio_buffer t)"
  "transcription_queue (stop t) = transcription_queue t"
  by (simp_all add: stop_def Let_def)

text \<open>
  Claim C9. \<^verbatim>\<open>get_transcriptions\<close> yields an item only when the running flag is true,
  and ends, yielding nothing more, when it finds the flag false. \<^verbatim>\<open>stop\<close> clears the
  flag, drops the thread after the join and clears the audio buffer; after it the result
  sequence ends at its next resumption with no item, whatever is still queued, and the
  recognition loop leaves its \<^verbatim>\<open>while\<close> without another pass; so does the loop after a
  pass that was under way when the flag was cleared.
\<close>

theorem stop_ends_result_sequence:
  "(fst (get_transcriptions_step t) = Yield x \<longrightarrow> running t) \<and>
   (\<not> running t \<longrightarrow> get_transcriptions_step t = (StopAsyncIteration, t)) \<and>
   (\<not> running t \<longrightarrow> get_transcriptions (Suc n) t = ([], True)) \<and>
   running (stop t) = False \<and> processing_thread (stop t) = False \<and>
   buffer (audio_buffer (stop t)) = [] \<and> total_samples (audio_buffer (stop t)) = 0 \<and>
   get_transcriptions_step (stop t) = (StopAsyncIteration, stop t) \<and>
   get_transcriptions (Suc n) (stop t) = ([], True) \<and>
   transcriber_process_audio recognize ticks (stop t) = (Exited (stop t), []) \<and>
   transcriber_process_audio recognize ticks
       (fst (process_audio_iteration recognize (t\<lparr>running := False\<rparr>)))
     = (Exited (fst (process_audio_iteration recognize (t\<lparr>running := False\<rparr>))), [])"
proof -
  have a: "fst (get_transcriptions_step t) = Yield x \<longrightarrow> running t"
    by (simp add: get_transcriptions_step_def split: list.splits)
  have b: "get_transcriptions_step u = (StopAsyncIteration, u)" if "\<not> running u" for u
    using that by (simp add: get_transcriptions_step_def)
  have b': "get_transcriptions (Suc n) u = ([], True)" if "\<not> running u" for u
    using b [OF that] by simp
  have d: "transcriber_process_audio recognize ticks u = (Exited u, [])" if "\<not> running u" for u
    using that by (cases ticks) simp_all
  have s: "\<not> running (stop t)"
    by (simp add: stop_fields)
  have e: "\<not> running (fst (process_audio_iteration recognize (t\<lparr>running := False\<rparr>)))"
    by (simp add: iteration_fields)
  from a b [of t] b' [of t] b [OF s] b' [OF s] d [OF s] d [OF e] show ?thesis
    by (simp add: stop_fields clear_buffer_def)
qed

theorem stop_ends_result_sequence_witness:
  "running five_chunk_transcriber \<and>
   get_transcriptions_step (five_chunk_transcriber\<lparr>transcription_queue := [(''hello'', 1)]\<rparr>)
     = (Yield (''hello'', 1), five_chunk_transcriber\<lparr>transcription_queue := []\<rparr>) \<and>
   get_transcriptions (Suc 3)
          (stop (five_chunk_transcriber\<lparr>transcription_queue := [(''hello'', 1)]\<rparr>))
     = ([], True) \<and>
   buffer (audio_buffer (stop five_chunk_transcriber)) = []"
proof -
  have r: "running five_chunk_transcriber"
    by (simp add: five_chunk_transcriber_def add_audio_chunk_def start_def
        StreamingTranscriber_init_def)
  have y: "get_transcriptions_step (five_chunk_transcriber\<lparr>transcription_queue := [(''hello'', 1)]\<rparr>)
     = (Yield (''hello'', 1), five_chunk_transcriber\<lparr>transcription_queue := []\<rparr>)"
    using r by (simp add: get_transcriptions_step_def)
  from stop_ends_result_sequence
    [of "five_chunk_transcriber\<lparr>transcription_queue := [(''hello'', 1)]\<rparr>" "(''hello'', 1)" 3
        example_recognizer "[]"]
  have g: "get_transcriptions (Suc 3)
          (stop (five_chunk_transcriber\<lparr>transcription_queue := [(''hello'', 1)]\<rparr>))
     = ([], True)"
    by blast
  from stop_ends_result_sequence [of five_chunk_transcriber "(''hello'', 1)" 3 example_recognizer "[]"]
  have c: "buffer (audio_buffer (stop five_chunk_transcriber)) = []"
    by blast
  from r y g c show ?thesis by simp
qed

section \<open>Properties of connection handling\<close>

lemma disconnect_cleanup_sessions:
  "session_manager (fst (disconnect_cleanup srv ws)) = session_manager srv"
  by (simp add: disconnect_cleanup_def Let_def split: option.splits prod.splits)

lemma disconnect_cleanup_config:
  "client_configs (fst (disconnect_cleanup srv ws)) ws = None"
  by (auto simp add: disconnect_cleanup_def Let_def domIff split: option.splits)

text \<open>
  Claim C1, as the code has it. For a connected client the \<^verbatim>\<open>finally\<close> block performs,
  in this order: stop the transcriber, remove the connection from
  \<^verbatim>\<open>active_connections\<close>, delete its configuration, remove its message queue, cancel
  its transcription task. Afterwards none of the four registries holds the client. The
  session manager is not touched: \<^verbatim>\<open>get_other_session_participants\<close> returns what it
  returned before.
\<close>

theorem disconnect_cleanup_effects:
  assumes "client_configs srv ws = Some cfg" and "cfg_client_id cfg \<noteq> []"
    and "active_transcribers srv ws = Some t"
    and "ws \<in> set (active_connections srv)" and "distinct (active_connections srv)"
  shows "snd (disconnect_cleanup srv ws) =
           [StoppedTranscriber (stop t), RemovedConnection, DiscardedConfig,
            RemovedQueue (cfg_client_id cfg), CancelledTask] \<and>
         active_transcribers (fst (disconnect_cleanup srv ws)) ws = None \<and>
         ws \<notin> set (active_connections (fst (disconnect_cleanup srv ws))) \<and>
         client_configs (fst (disconnect_cleanup srv ws)) ws = None \<and>
         message_manager (fst (disconnect_cleanup srv ws)) (cfg_client_id cfg) = None \<and>
         ws \<notin> transcription_tasks (fst (disconnect_cleanup srv ws)) \<and>
         session_manager (fst (disconnect_cleanup srv ws)) = session_manager srv \<and>
         get_other_session_participants (session_manager (fst (disconnect_cleanup srv ws))) w
           = get_other_session_participants (session_manager srv) w"
  using assms
  by (simp add: disconnect_cleanup_def remove_client_def Let_def domIff)

theorem disconnect_cleanup_effects_witness:
  "client_configs two_clients_connected 1 = Some (default_config ''1001'') \<and>
   snd (disconnect_cleanup two_clients_connected 1) =
     [StoppedTranscriber (stop (StreamingTranscriber_init None)), RemovedConnection,
      DiscardedConfig, RemovedQueue ''1001'', CancelledTask] \<and>
   message_manager (fst (disconnect_cleanup two_clients_connected 1)) ''1001'' = None \<and>
   active_connections (fst (disconnect_cleanup two_clients_connected 1)) = [2]"
proof -
  have c: "client_configs two_clients_connected 1 = Some (default_config ''1001'')"
    by (simp add: two_clients_connected_def accept_connection_def server_init_def)
  have i: "cfg_client_id (default_config ''1001'') \<noteq> []"
    by (simp add: default_config_def)
  have t: "active_transcribers two_clients_connected 1 = Some (StreamingTranscriber_init None)"
    by (simp add: two_clients_connected_def accept_connection_def server_init_def)
  have a: "active_connections two_clients_connected = [1, 2]"
    by (simp add: two_clients_connected_def accept_connection_def server_init_def)
  have m: "1 \<in> set (active_connections two_clients_connected)"
    and d: "distinct (active_connections two_clients_connected)"
    by (simp_all add: a)
  have l: "active_connections (fst (disconnect_cleanup two_clients_connected 1)) = [2]"
    using c t a by (simp add: disconnect_cleanup_def Let_def domIff)
  from disconnect_cleanup_effects [OF c i t m d] c l show ?thesis
    by (simp add: default_config_def)
qed

text \<open>
  Clients 1 and 2 are in session s1 and client 1 disconnects: its configuration is gone,
  and \<^verbatim>\<open>get_other_session_participants\<close> for client 2 still returns client 1.
\<close>

theorem disconnected_client_stays_in_session:
  "\<not> isl session_created \<and> \<not> isl session_joined \<and>
   get_session_participants (session_manager two_clients_in_session) ''s1'' = [1, 2] \<and>
   client_configs (fst (disconnect_cleanup two_clients_in_session 1)) 1 = None \<and>
   get_other_session_participants
     (session_manager (fst (disconnect_cleanup two_clients_in_session 1))) 2 = [1]"
proof -
  have c: "session_created = Inr (projr session_created)"
    by (simp add: session_created_def two_clients_connected_def handle_session_create_def
        accept_connection_def server_init_def join_session_cases create_session_def
        Session_init_def is_full_def SessionManager_init_def Let_def)
  have cm: "sessions (session_manager (projr session_created)) ''s1'' =
      Some \<lparr>session_id = ''s1'', name = ''room'', created_at = 10, max_participants = 2,
            participants = [(1, config_user_info (default_config ''1001''))], last_activity = 10\<rparr>"
    and cc: "client_sessions (session_manager (projr session_created)) = [1 \<mapsto> ''s1'']"
    and cf: "client_configs (projr session_created) 2 = Some (default_config ''1002'')"
    by (simp_all add: session_created_def two_clients_connected_def handle_session_create_def
        accept_connection_def server_init_def join_session_cases create_session_def
        Session_init_def is_full_def SessionManager_init_def Let_def)
  have j: "session_joined = Inr (projr session_joined)"
    using cm cf
    by (simp add: session_joined_def handle_session_join_def join_session_cases is_full_def)
  have jm: "sessions (session_manager two_clients_in_session) ''s1'' =
      Some \<lparr>session_id = ''s1'', name = ''room'', created_at = 10, max_participants = 2,
            participants = [(1, config_user_info (default_config ''1001'')),
                            (2, config_user_info (default_config ''1002''))],
            last_activity = 20\<rparr>"
    and jc: "client_sessions (session_manager two_clients_in_session) 2 = Some ''s1''"
    using cm cf cc
    by (simp_all add: two_clients_in_session_def session_joined_def handle_session_join_def
        join_session_cases is_full_def)
  have gone: "client_configs (fst (disconnect_cleanup two_clients_in_session 1)) 1 = None"
    by (rule disconnect_cleanup_config)
  from c have c': "\<not> isl session_created" by (metis sum.disc(2))
  from j have j': "\<not> isl session_joined" by (metis sum.disc(2))
  from c' j' jm jc gone show ?thesis
    by (simp add: disconnect_cleanup_sessions get_session_participants_def
        get_other_session_participants_def get_client_session_def get_session_def
        get_other_participants_def)
qed

lemma process_queue_step_explicit:
  assumes "message_manager srv cid = Some q" and "queue q = m # rest"
    and "processors q = [ProcessAudio ws]"
    and "client_configs srv ws = Some cfg" and "active_transcribers srv ws = Some t"
  shows "process_queue_step srv cid =
           srv\<lparr>message_manager :=
                  (message_manager srv)(cid \<mapsto> q\<lparr>queue := rest, processing := True\<rparr>),
               active_transcribers :=
                  (active_transcribers srv)(ws \<mapsto>
                     (if cfg_role cfg = ''speaker'' then add_audio_chunk t m else t))\<rparr>"
  using assms by (simp add: process_queue_step_def process_audio_def fun_upd_idem)

lemma drain_queue:
  assumes "message_manager srv cid = Some q" and "queue q = ms"
    and "processors q = [ProcessAudio ws]"
    and "client_configs srv ws = Some cfg" and "active_transcribers srv ws = Some t"
  shows "map_option queue (message_manager (drain (length ms) srv cid) cid) = Some [] \<and>
         active_transcribers (drain (length ms) srv cid) ws =
           Some (if cfg_role cfg = ''speaker'' then foldl add_audio_chunk t ms else t) \<and>
         client_configs (drain (length ms) srv cid) = client_configs srv"
  using assms
proof (induction ms arbitrary: srv q t)
  case Nil
  then show ?case by simp
next
  case (Cons m rest)
  let ?q' = "q\<lparr>queue := rest, processing := True\<rparr>"
  let ?t' = "if cfg_role cfg = ''speaker'' then add_audio_chunk t m else t"
  let ?srv' = "srv\<lparr>message_manager := (message_manager srv)(cid \<mapsto> ?q'),
                    active_transcribers := (active_transcribers srv)(ws \<mapsto> ?t')\<rparr>"
  from process_queue_step_explicit [OF Cons.prems]
  have step: "process_queue_step srv cid = ?srv'" .
  have m': "message_manager ?srv' cid = Some ?q'" by simp
  have q': "queue ?q' = rest" by simp
  have p': "processors ?q' = [ProcessAudio ws]" using Cons.prems(3) by simp
  have c': "client_configs ?srv' ws = Some cfg" using Cons.prems(4) by simp
  have t': "active_transcribers ?srv' ws = Some ?t'" by simp
  from Cons.IH [OF m' q' p' c' t'] step show ?case
    by simp
qed

text \<open>
  Claim C10. A chunk arrives for a connected client, whatever its role then, and is
  queued behind the chunks already waiting (the queue is not full); the role is then
  set to \<open>r\<close>; the queue is then drained. Every queued chunk is removed from the
  queue, and the queued chunks are added to the transcriber, in order, exactly when \<open>r\<close>
  is the speaker role; otherwise none is.
\<close>

theorem role_read_at_dequeue:
  assumes "client_configs srv ws = Some cfg" and "cfg_client_id cfg = cid" and "cid \<noteq> []"
    and "message_manager srv cid = Some q" and "length (queue q) < maxlen q"
    and "processors q = [ProcessAudio ws]"
    and "active_transcribers srv ws = Some t" and "chunk \<noteq> []"
  shows "\<exists>srv1 srv2.
           handle_bytes srv ws chunk = Inr srv1 \<and>
           map_option queue (message_manager srv1 cid) = Some (queue q @ [chunk]) \<and>
           active_transcribers srv1 ws = Some t \<and>
           handle_config srv1 ws (role_message r) = Inr srv2 \<and>
           map_option queue (message_manager (drain (length (queue q) + 1) srv2 cid) cid) = Some [] \<and>
           active_transcribers (drain (length (queue q) + 1) srv2 cid) ws =
             Some (if r = ''speaker'' then foldl add_audio_chunk t (queue q @ [chunk]) else t)"
proof -
  let ?q1 = "add_message q chunk"
  let ?srv1 = "srv\<lparr>message_manager := (message_manager srv)(cid \<mapsto> ?q1)\<rparr>"
  let ?cfg2 = "cfg\<lparr>cfg_role := r\<rparr>"
  let ?srv2 = "?srv1\<lparr>client_configs := (client_configs ?srv1)(ws \<mapsto> ?cfg2),
                     active_transcribers := active_transcribers ?srv1\<rparr>"
  have q1: "queue ?q1 = queue q @ [chunk]" "processors ?q1 = [ProcessAudio ws]"
    using assms(5,6) by (simp_all add: add_message_def deque_append_def Let_def)
  have h1: "handle_bytes srv ws chunk = Inr ?srv1"
    using assms by (simp add: handle_bytes_def manager_add_message_def get_queue_def)
  have h2: "handle_config ?srv1 ws (role_message r) = Inr ?srv2"
    using assms by (simp add: handle_config_def role_message_def)
  have m2: "message_manager ?srv2 cid = Some ?q1" by simp
  have c2: "client_configs ?srv2 ws = Some ?cfg2" by simp
  have t2: "active_transcribers ?srv2 ws = Some t" using assms(7) by simp
  from drain_queue [OF m2 q1(1) q1(2) c2 t2]
  have d: "map_option queue (message_manager (drain (length (queue q) + 1) ?srv2 cid) cid) = Some []"
    "active_transcribers (drain (length (queue q) + 1) ?srv2 cid) ws =
       Some (if r = ''speaker'' then foldl add_audio_chunk t (queue q @ [chunk]) else t)"
    by simp_all
  have s1: "map_option queue (message_manager ?srv1 cid) = Some (queue q @ [chunk])"
    "active_transcribers ?srv1 ws = Some t"
    using q1 assms(7) by simp_all
  from h1 h2 d s1 show ?thesis by blast
qed

theorem role_read_at_dequeue_witness:
  "active_transcribers (drain (Suc (Suc 0))
      (projr (handle_config
         (projr (handle_bytes listener_with_queued_chunk 1 [4, 5]))
         1 (role_message ''speaker'')))
      ''1001'') 1
    = Some (foldl add_audio_chunk (StreamingTranscriber_init None) [[1, 2, 3], [4, 5]]) \<and>
   active_transcribers (drain (Suc 0)
      (projr (handle_config
         (projr (handle_bytes two_clients_connected 1 [1, 2, 3]))
         1 (role_message ''listener'')))
      ''1001'') 1
    = Some (StreamingTranscriber_init None)"
proof -
  let ?q = "add_processor MessageQueue_default (ProcessAudio 1) :: bytes message_queue"
  let ?ql = "add_message ?q [1, 2, 3]"
  let ?cl = "(default_config ''1001'')\<lparr>cfg_role := ''listener''\<rparr>"
  have c0: "client_configs two_clients_connected 1 = Some (default_config ''1001'')"
    and m0: "message_manager two_clients_connected ''1001'' = Some ?q"
    and t0: "active_transcribers two_clients_connected 1 = Some (StreamingTranscriber_init None)"
    by (simp_all add: two_clients_connected_def accept_connection_def server_init_def
        manager_add_processor_def get_queue_def)
  have q: "length (queue ?q) < maxlen ?q" "processors ?q = [ProcessAudio 1]" "queue ?q = []"
    by (simp_all add: add_processor_def MessageQueue_default_def)
  have i: "cfg_client_id (default_config ''1001'') = ''1001''" "''1001'' \<noteq> []"
    "cfg_client_id ?cl = ''1001''"
    by (simp_all add: default_config_def)
  have n: "[1, 2, 3 :: byte] \<noteq> []" "[4, 5 :: byte] \<noteq> []" by simp_all
  have cl: "client_configs listener_with_queued_chunk 1 = Some ?cl"
    and ml: "message_manager listener_with_queued_chunk ''1001'' = Some ?ql"
    and tl: "active_transcribers listener_with_queued_chunk 1 = Some (StreamingTranscriber_init None)"
    using c0 m0 t0 i
    by (simp_all add: listener_with_queued_chunk_def handle_config_def role_message_def
        handle_bytes_def manager_add_message_def get_queue_def)
  have ql: "length (queue ?ql) < maxlen ?ql" "processors ?ql = [ProcessAudio 1]"
    "queue ?ql = [[1, 2, 3]]"
    by (simp_all add: add_message_def deque_append_def add_processor_def MessageQueue_default_def)
  from role_read_at_dequeue [OF cl i(3) i(2) ml ql(1) ql(2) tl n(2), of "''speaker''"]
  obtain s1 s2 where a1: "handle_bytes listener_with_queued_chunk 1 [4, 5] = Inr s1"
    and a2: "handle_config s1 1 (role_message ''speaker'') = Inr s2"
    and a3: "active_transcribers (drain (length (queue ?ql) + 1) s2 ''1001'') 1 =
               Some (if ''speaker'' = ''speaker''
                     then foldl add_audio_chunk (StreamingTranscriber_init None)
                            (queue ?ql @ [[4, 5]])
                     else StreamingTranscriber_init None)"
    by blast
  from a3 have a4: "active_transcribers (drain (Suc (Suc 0)) s2 ''1001'') 1 =
               Some (foldl add_audio_chunk (StreamingTranscriber_init None) [[1, 2, 3], [4, 5]])"
    unfolding ql(3) by simp
  from role_read_at_dequeue [OF c0 i(1) i(2) m0 q(1) q(2) t0 n(1), of "''listener''"]
  obtain u1 u2 where b1: "handle_bytes two_clients_connected 1 [1, 2, 3] = Inr u1"
    and b2: "handle_config u1 1 (role_message ''listener'') = Inr u2"
    and b3: "active_transcribers (drain (length (queue ?q) + 1) u2 ''1001'') 1 =
               Some (if ''listener'' = ''speaker''
                     then foldl add_audio_chunk (StreamingTranscriber_init None)
                            (queue ?q @ [[1, 2, 3]])
                     else StreamingTranscriber_init None)"
    by blast
  from b3 have b4: "active_transcribers (drain (Suc 0) u2 ''1001'') 1 =
               Some (StreamingTranscriber_init None)"
    unfolding q(3) by simp
  from a1 a2 a4 b1 b2 b4 show ?thesis by simp
qed

end
